theory Spec2Isabelle
  imports Complex_Main
begin

section \<open>The withdrawal service: data model\<close>

text \<open>
  The repository holds two copies of one Express handler, \<^verbatim>\<open>POST /process-withdrawal\<close>:
  \<^verbatim>\<open>src/withdrawal-service.js\<close> and the older copy \<^verbatim>\<open>withdrawal-service (1).js\<close>
  (\<^verbatim>\<open>src/unnamed/part_000\<close>). Both are embedded here, the first under the names of
  the source, the second under the same names with the suffix \<open>_copy\<close>.

  Tick numbers are naturals. A value that the code tests for truthiness is a
  \<open>jsval\<close>.

  JavaScript numbers that carry amounts are IEEE doubles in the code and exact rationals
  here (so \<open>0.55\<close> is \<open>11/20\<close> and sums do not round): the number the balance
  calculator yields here can differ from the code's in the last places, and nothing
  below states what that number is. The general theorems take the calculator's value as
  given and use it only in the comparison with the requested amount. The runs on the
  example stores evaluate it: 1100000 and 600000 are what the doubles give as well; for
  \<open>ex_store_poor\<close> it is 55 here and 55.00000000000001 in the code, both below the
  requested 500000.
\<close>

datatype jsval = Undefined | Null | Str string

text \<open>Truthiness of a value: \<^verbatim>\<open>undefined\<close>, \<^verbatim>\<open>null\<close> and \<^verbatim>\<open>''\<close> are falsy.\<close>

fun truthy :: "jsval \<Rightarrow> bool" where
  "truthy (Str s) = (s \<noteq> [])"
| "truthy Undefined = False"
| "truthy Null = False"

text \<open>\<^verbatim>\<open>a || b\<close>\<close>

definition js_or :: "jsval \<Rightarrow> jsval \<Rightarrow> jsval" where
  "js_or a b = (if truthy a then a else b)"

text \<open>A value inside a template literal: \<^verbatim>\<open>`${v}`\<close>.\<close>

fun js_show :: "jsval \<Rightarrow> string" where
  "js_show (Str s) = s"
| "js_show Undefined = ''undefined''"
| "js_show Null = ''null''"

text \<open>\<^verbatim>\<open>Number(withdrawal.amount)\<close> on a numeric column: \<^verbatim>\<open>Number(null)\<close> is 0.\<close>

definition js_Number :: "rat option \<Rightarrow> rat" where
  "js_Number a = (case a of None \<Rightarrow> 0 | Some x \<Rightarrow> x)"

text \<open>A row of the table \<^verbatim>\<open>withdrawals\<close>.\<close>

record withdrawal =
  w_id :: string
  user_id :: string
  to_address :: string
  amount :: "rat option"
  status :: string
  tx_hash :: "string option"
  completed_at :: "string option"

text \<open>A row of the table \<^verbatim>\<open>transactions\<close> (the ledger entries).\<close>

record ledger_entry =
  t_user_id :: string
  t_type :: string
  t_amount :: "rat option"
  t_status :: string
  t_tx_hash :: "string option"
  created_at :: nat

record store =
  withdrawals :: "withdrawal list"
  transactions :: "ledger_entry list"

text \<open>
  The JSON of \<^verbatim>\<open>GET status\<close>, as far as the handler reads it:
  \<^verbatim>\<open>tickData.lastProcessedTick?.tickNumber\<close>. The outer \<open>None\<close> is an absent
  \<^verbatim>\<open>lastProcessedTick\<close>, the inner one an absent \<^verbatim>\<open>tickNumber\<close>.
\<close>

record tickData =
  lastProcessedTick :: "nat option option"

text \<open>
  What the Transfer Builder hands back (lines 138-151 of the source): the base64 package
  data and what \<^verbatim>\<open>transaction.getTxId()\<close> returns.
\<close>

record built =
  base64Transaction :: string
  getTxId :: jsval

text \<open>
  The response of \<^verbatim>\<open>POST broadcast-transaction\<close>: \<^verbatim>\<open>ok\<close>, the body as
  \<^verbatim>\<open>text()\<close> gives it, and the field \<^verbatim>\<open>txId\<close> of the body as \<^verbatim>\<open>json()\<close> gives it
  (\<open>Inl\<close> when \<^verbatim>\<open>json()\<close> rejects).
\<close>

record broadcastResponse =
  ok :: bool
  body_text :: string
  json_txId :: "string + jsval"

text \<open>
  How one call of the store client ends: it is applied, it resolves with an
  \<^verbatim>\<open>error\<close> and no data (nothing applied), or the awaited promise rejects with a
  message.
\<close>

datatype db_outcome = DbOk | DbError | DbThrow string

text \<open>
  Everything outside the handler during one request: the outcome of each store call in
  the order of the source, the two RPC endpoints, the Transfer Builder (amount,
  destination, tick) and the clock. \<open>Inl\<close> is a rejected promise or a raised exception,
  with its \<^verbatim>\<open>message\<close>.
\<close>

record env =
  db_fetch :: db_outcome
  db_aiMined :: db_outcome
  db_totalWithdrawn :: db_outcome
  db_insufficient :: db_outcome
  db_completed :: db_outcome
  db_transactions :: db_outcome
  db_compensate :: db_outcome
  rpc_status :: "string + tickData"
  builder :: "rat \<Rightarrow> string \<Rightarrow> nat \<Rightarrow> string + built"
  rpc_broadcast :: "string \<Rightarrow> string + broadcastResponse"
  now :: string

text \<open>The fields an \<^verbatim>\<open>update\<close> of \<^verbatim>\<open>withdrawals\<close> sets.\<close>

datatype patch = MarkFailed | MarkCompleted jsval string

text \<open>
  What the handler does to the outside, in order: writes to the store, calls of the
  network and of the builder, and \<^verbatim>\<open>console.error\<close> (label, detail).
\<close>

datatype event =
    DbUpdateWithdrawal jsval patch
  | DbUpdateTransaction string jsval
  | RpcStatus
  | Build rat string nat
  | Broadcast string
  | ConsoleError string string

text \<open>
  The JSON body sent back: \<^verbatim>\<open>{success: false, error}\<close>, the insufficient-balance
  error (its text formats the available balance with \<^verbatim>\<open>toLocaleString\<close>, kept here as
  the number), or \<^verbatim>\<open>{success: true, txHash, explorerUrl, ...}\<close>.
\<close>

datatype body = Error string | Insufficient rat | Success jsval string

text \<open>
  The HTTP response with its status code; \<open>Unanswered m\<close> is a handler whose promise
  rejected with \<open>m\<close> before any response was sent.
\<close>

datatype response = Response nat body | Unanswered string

section \<open>Control flow of an async handler\<close>

text \<open>
  A statement of the \<^verbatim>\<open>try\<close> block runs on the store and the trace so far and either
  goes on with a value, returns the response, or throws.
\<close>

datatype 'a outcome = Next 'a | Return response | Throw string

type_synonym 'a proc = "store \<times> event list \<Rightarrow> 'a outcome \<times> store \<times> event list"

definition andThen :: "'a proc \<Rightarrow> ('a \<Rightarrow> 'b proc) \<Rightarrow> 'b proc" where
  "andThen m f = (\<lambda>st. case m st of
       (Next a, st') \<Rightarrow> f a st'
     | (Return r, st') \<Rightarrow> (Return r, st')
     | (Throw x, st') \<Rightarrow> (Throw x, st'))"

definition ret :: "'a \<Rightarrow> 'a proc" where
  "ret a = (\<lambda>st. (Next a, st))"

definition respond :: "response \<Rightarrow> 'a proc" where
  "respond r = (\<lambda>st. (Return r, st))"

definition throw :: "string \<Rightarrow> 'a proc" where
  "throw m = (\<lambda>st. (Throw m, st))"

definition emit :: "event \<Rightarrow> unit proc" where
  "emit ev = (\<lambda>(s, tr). (Next (), s, tr @ [ev]))"

text \<open>Awaiting an outside call: the call is recorded, a rejection is thrown.\<close>

definition await :: "event \<Rightarrow> string + 'a \<Rightarrow> 'a proc" where
  "await ev r = andThen (emit ev) (\<lambda>_. case r of Inl m \<Rightarrow> throw m | Inr a \<Rightarrow> ret a)"

section \<open>The store client\<close>

text \<open>
  \<^verbatim>\<open>.from('withdrawals').select('*').eq('id', withdrawalId).single()\<close>: the data is the
  row when the call is applied and exactly one row matches, and \<^verbatim>\<open>null\<close> (with
  \<^verbatim>\<open>error\<close> set) otherwise.
\<close>

definition select_single :: "db_outcome \<Rightarrow> jsval \<Rightarrow> withdrawal option proc" where
  "select_single oc withdrawalId = (\<lambda>(s, tr). case oc of
       DbThrow m \<Rightarrow> (Throw m, s, tr)
     | DbError \<Rightarrow> (Next None, s, tr)
     | DbOk \<Rightarrow> (case filter (\<lambda>w. Str (w_id w) = withdrawalId) (withdrawals s) of
                  [w] \<Rightarrow> (Next (Some w), s, tr)
                | _ \<Rightarrow> (Next None, s, tr)))"

text \<open>
  \<^verbatim>\<open>.select('amount').eq(column, value)\<close>: the amounts of the rows a query picks, or
  \<^verbatim>\<open>null\<close> data when the call resolves with an error.
\<close>

definition select_amounts :: "db_outcome \<Rightarrow> (store \<Rightarrow> rat option list) \<Rightarrow> rat option list option proc" where
  "select_amounts oc query = (\<lambda>(s, tr). case oc of
       DbThrow m \<Rightarrow> (Throw m, s, tr)
     | DbError \<Rightarrow> (Next None, s, tr)
     | DbOk \<Rightarrow> (Next (Some (query s)), s, tr))"

definition aiMined_rows :: "store \<Rightarrow> rat option list" where
  "aiMined_rows s = map t_amount (filter (\<lambda>t. t_type t = ''ai_mining'') (transactions s))"

definition totalWithdrawn_rows :: "store \<Rightarrow> rat option list" where
  "totalWithdrawn_rows s = map amount (filter (\<lambda>w. status w = ''completed'') (withdrawals s))"

text \<open>
  The patch of an update. A JSON body drops a field whose value is \<^verbatim>\<open>undefined\<close>, so
  \<^verbatim>\<open>tx_hash: undefined\<close> leaves the column as it is and \<^verbatim>\<open>tx_hash: null\<close> clears it.
\<close>

fun set_tx_hash :: "jsval \<Rightarrow> string option \<Rightarrow> string option" where
  "set_tx_hash (Str h) old = Some h"
| "set_tx_hash Null old = None"
| "set_tx_hash Undefined old = old"

fun apply_patch :: "patch \<Rightarrow> withdrawal \<Rightarrow> withdrawal" where
  "apply_patch MarkFailed w = w\<lparr>status := ''failed''\<rparr>"
| "apply_patch (MarkCompleted txHash t) w =
     w\<lparr>status := ''completed'', tx_hash := set_tx_hash txHash (tx_hash w), completed_at := Some t\<rparr>"

text \<open>
  \<^verbatim>\<open>.from('withdrawals').update(patch).eq('id', withdrawalId)\<close>: when the call is
  applied, every row with that id gets the patch.
\<close>

definition apply_update :: "jsval \<Rightarrow> patch \<Rightarrow> store \<Rightarrow> store" where
  "apply_update withdrawalId p s =
     s\<lparr>withdrawals := map (\<lambda>w. if Str (w_id w) = withdrawalId then apply_patch p w else w)
                          (withdrawals s)\<rparr>"

definition update_withdrawals :: "db_outcome \<Rightarrow> jsval \<Rightarrow> patch \<Rightarrow> unit proc" where
  "update_withdrawals oc withdrawalId p =
     andThen (emit (DbUpdateWithdrawal withdrawalId p)) (\<lambda>_. \<lambda>(s, tr). case oc of
         DbThrow m \<Rightarrow> (Throw m, s, tr)
       | DbError \<Rightarrow> (Next (), s, tr)
       | DbOk \<Rightarrow> (Next (), apply_update withdrawalId p s, tr))"

text \<open>
  \<^verbatim>\<open>.from('transactions').update({status: 'completed', tx_hash: txHash})
  .eq('user_id', uid).eq('type', 'withdrawal').is('tx_hash', null)
  .order('created_at', {ascending: false}).limit(1)\<close>:
  of the rows that match, the one created last is updated (the first such row of the
  table when several share that time).
\<close>

definition pending_entry :: "string \<Rightarrow> ledger_entry \<Rightarrow> bool" where
  "pending_entry uid t = (t_user_id t = uid \<and> t_type t = ''withdrawal'' \<and> t_tx_hash t = None)"

fun update_first :: "('a \<Rightarrow> bool) \<Rightarrow> ('a \<Rightarrow> 'a) \<Rightarrow> 'a list \<Rightarrow> 'a list" where
  "update_first P f [] = []"
| "update_first P f (x # xs) = (if P x then f x # xs else x # update_first P f xs)"

definition complete_entry :: "jsval \<Rightarrow> ledger_entry \<Rightarrow> ledger_entry" where
  "complete_entry txHash t = t\<lparr>t_status := ''completed'', t_tx_hash := set_tx_hash txHash (t_tx_hash t)\<rparr>"

definition update_latest_entry :: "string \<Rightarrow> jsval \<Rightarrow> ledger_entry list \<Rightarrow> ledger_entry list" where
  "update_latest_entry uid txHash ts =
     (let latest = fold max (map created_at (filter (pending_entry uid) ts)) 0
      in update_first (\<lambda>t. pending_entry uid t \<and> created_at t = latest) (complete_entry txHash) ts)"

definition apply_entry_update :: "string \<Rightarrow> jsval \<Rightarrow> store \<Rightarrow> store" where
  "apply_entry_update uid txHash s =
     s\<lparr>transactions := update_latest_entry uid txHash (transactions s)\<rparr>"

definition update_transactions :: "db_outcome \<Rightarrow> string \<Rightarrow> jsval \<Rightarrow> unit proc" where
  "update_transactions oc uid txHash =
     andThen (emit (DbUpdateTransaction uid txHash)) (\<lambda>_. \<lambda>(s, tr). case oc of
         DbThrow m \<Rightarrow> (Throw m, s, tr)
       | DbError \<Rightarrow> (Next (), s, tr)
       | DbOk \<Rightarrow> (Next (), apply_entry_update uid txHash s, tr))"

section \<open>The balance calculator\<close>

text \<open>
  \<^verbatim>\<open>data?.reduce((sum, t) => sum + (t.amount || 0), 0) || 0\<close>: a \<^verbatim>\<open>null\<close> amount
  counts 0, and so does \<^verbatim>\<open>null\<close> data.
\<close>

definition amount_or_0 :: "rat option \<Rightarrow> rat" where
  "amount_or_0 a = (case a of None \<Rightarrow> 0 | Some x \<Rightarrow> x)"

definition reduce_amounts :: "rat option list option \<Rightarrow> rat" where
  "reduce_amounts rows = (case rows of
       None \<Rightarrow> 0
     | Some ts \<Rightarrow> foldl (\<lambda>sum a. sum + amount_or_0 a) 0 ts)"

text \<open>
  Lines 98-112 of \<^verbatim>\<open>src/withdrawal-service.js\<close> (62-76 of the copy). The two reads,
  the rows they select and the order of the operations are the code's; the arithmetic
  is exact where the code's rounds.
\<close>

definition computeAvailable :: "env \<Rightarrow> rat proc" where
  "computeAvailable e =
     andThen (select_amounts (db_aiMined e) aiMined_rows) (\<lambda>aiMined.
     let totalAiMined = reduce_amounts aiMined;
         treasuryBalance = totalAiMined * 0.55
     in
     andThen (select_amounts (db_totalWithdrawn e) totalWithdrawn_rows) (\<lambda>totalWithdrawn.
     let totalWithdrawalAmount = reduce_amounts totalWithdrawn;
         availableBalance = treasuryBalance - totalWithdrawalAmount
     in ret availableBalance))"

section \<open>The handler of \<^verbatim>\<open>src/withdrawal-service.js\<close>\<close>

text \<open>\<^verbatim>\<open>tickData.lastProcessedTick?.tickNumber || 0\<close>\<close>

definition currentTick :: "tickData \<Rightarrow> nat" where
  "currentTick td = (case lastProcessedTick td of
       None \<Rightarrow> 0
     | Some None \<Rightarrow> 0
     | Some (Some n) \<Rightarrow> (if n = 0 then 0 else n))"

definition explorerUrl :: "jsval \<Rightarrow> string" where
  "explorerUrl txHash = ''https://explorer.qubic.org/network/tx/'' @ js_show txHash"

text \<open>Lines 64-95: the id check, the fetch and the status guard.\<close>

definition guard_phase :: "env \<Rightarrow> jsval \<Rightarrow> withdrawal proc" where
  "guard_phase e withdrawalId =
     (if \<not> truthy withdrawalId
      then respond (Response 400 (Error ''Missing withdrawalId parameter''))
      else andThen (select_single (db_fetch e) withdrawalId) (\<lambda>fetched.
        case fetched of
          None \<Rightarrow> andThen (emit (ConsoleError ''Withdrawal not found:'' ''''))
                    (\<lambda>_. respond (Response 404 (Error ''Withdrawal not found'')))
        | Some withdrawal \<Rightarrow>
            if status withdrawal \<noteq> ''pending''
            then respond (Response 400 (Error (''Withdrawal already '' @ status withdrawal)))
            else ret withdrawal))"

text \<open>Lines 127-207: tick, build, broadcast, commit, response.\<close>

definition transfer_phase :: "env \<Rightarrow> jsval \<Rightarrow> withdrawal \<Rightarrow> unit proc" where
  "transfer_phase e withdrawalId withdrawal =
     andThen (await RpcStatus (rpc_status e)) (\<lambda>tickData.
     let targetTick = currentTick tickData + 20;
         amt = js_Number (amount withdrawal)
     in
     andThen (await (Build amt (to_address withdrawal) targetTick)
                (builder e amt (to_address withdrawal) targetTick)) (\<lambda>transaction.
     andThen (await (Broadcast (base64Transaction transaction))
                (rpc_broadcast e (base64Transaction transaction))) (\<lambda>response.
     if \<not> ok response
     then andThen (emit (ConsoleError ''Broadcast failed:'' (body_text response)))
            (\<lambda>_. throw (''Broadcast failed: '' @ body_text response))
     else case json_txId response of
         Inl m \<Rightarrow> throw m
       | Inr txId \<Rightarrow>
           let txHash = js_or txId (getTxId transaction) in
           if \<not> truthy txHash
           then throw ''No transaction ID returned from broadcast''
           else
             andThen (update_withdrawals (db_completed e) withdrawalId
                        (MarkCompleted txHash (now e))) (\<lambda>_.
             andThen (update_transactions (db_transactions e) (user_id withdrawal) txHash) (\<lambda>_.
             respond (Response 200 (Success txHash (explorerUrl txHash))))))))"

text \<open>Lines 97-125, then the transfer.\<close>

definition after_guard :: "env \<Rightarrow> jsval \<Rightarrow> withdrawal \<Rightarrow> unit proc" where
  "after_guard e withdrawalId withdrawal =
     andThen (computeAvailable e) (\<lambda>availableBalance.
     if availableBalance < js_Number (amount withdrawal)
     then andThen (update_withdrawals (db_insufficient e) withdrawalId MarkFailed)
            (\<lambda>_. respond (Response 400 (Insufficient availableBalance)))
     else transfer_phase e withdrawalId withdrawal)"

definition try_block :: "env \<Rightarrow> jsval \<Rightarrow> unit proc" where
  "try_block e withdrawalId =
     andThen (guard_phase e withdrawalId) (\<lambda>withdrawal. after_guard e withdrawalId withdrawal)"

text \<open>
  Lines 209-227, the \<^verbatim>\<open>catch\<close>: the error is logged, the withdrawal is marked
  \<^verbatim>\<open>failed\<close> inside a \<^verbatim>\<open>try\<close> of its own, and the response carries
  \<^verbatim>\<open>error.message || 'Unknown error occurred'\<close>.
\<close>

definition catch_block :: "env \<Rightarrow> jsval \<Rightarrow> string \<Rightarrow> store \<times> event list \<Rightarrow> response \<times> store \<times> event list" where
  "catch_block e withdrawalId err st =
     (case andThen (emit (ConsoleError ''Withdrawal processing error:'' err)) (\<lambda>_.
             if truthy withdrawalId
             then update_withdrawals (db_compensate e) withdrawalId MarkFailed
             else ret ()) st of
        (Throw dbError, s', tr') \<Rightarrow>
          (Response 500 (Error (if err = [] then ''Unknown error occurred'' else err)),
           s', tr' @ [ConsoleError ''Failed to update withdrawal status:'' dbError])
      | (_, s', tr') \<Rightarrow>
          (Response 500 (Error (if err = [] then ''Unknown error occurred'' else err)), s', tr'))"

text \<open>How a run of the \<^verbatim>\<open>try\<close> block ends for the caller.\<close>

definition finish :: "env \<Rightarrow> jsval \<Rightarrow> unit outcome \<times> store \<times> event list \<Rightarrow> response \<times> store \<times> event list" where
  "finish e withdrawalId r = (case r of
       (Return resp, st) \<Rightarrow> (resp, st)
     | (Throw err, st) \<Rightarrow> catch_block e withdrawalId err st
     | (Next _, st) \<Rightarrow> (Unanswered [], st))"

definition processWithdrawal :: "env \<Rightarrow> jsval \<Rightarrow> store \<Rightarrow> response \<times> store \<times> event list" where
  "processWithdrawal e withdrawalId s = finish e withdrawalId (try_block e withdrawalId (s, []))"

section \<open>The handler of the copy, \<^verbatim>\<open>withdrawal-service (1).js\<close>\<close>

text \<open>Lines 43-60 of the copy: no \<^verbatim>\<open>console.error\<close>, shorter messages.\<close>

definition guard_phase_copy :: "env \<Rightarrow> jsval \<Rightarrow> withdrawal proc" where
  "guard_phase_copy e withdrawalId =
     (if \<not> truthy withdrawalId
      then respond (Response 400 (Error ''Missing withdrawalId''))
      else andThen (select_single (db_fetch e) withdrawalId) (\<lambda>fetched.
        case fetched of
          None \<Rightarrow> respond (Response 404 (Error ''Withdrawal not found''))
        | Some withdrawal \<Rightarrow>
            if status withdrawal \<noteq> ''pending''
            then respond (Response 400 (Error (''Already '' @ status withdrawal)))
            else ret withdrawal))"

text \<open>
  Lines 86-143 of the copy: the broadcast error has no detail, and nothing checks
  \<^verbatim>\<open>txHash\<close> before the record is marked \<^verbatim>\<open>completed\<close>.
\<close>

definition transfer_phase_copy :: "env \<Rightarrow> jsval \<Rightarrow> withdrawal \<Rightarrow> unit proc" where
  "transfer_phase_copy e withdrawalId withdrawal =
     andThen (await RpcStatus (rpc_status e)) (\<lambda>tickData.
     let targetTick = currentTick tickData + 20;
         amt = js_Number (amount withdrawal)
     in
     andThen (await (Build amt (to_address withdrawal) targetTick)
                (builder e amt (to_address withdrawal) targetTick)) (\<lambda>transaction.
     andThen (await (Broadcast (base64Transaction transaction))
                (rpc_broadcast e (base64Transaction transaction))) (\<lambda>response.
     if \<not> ok response
     then throw ''Broadcast failed''
     else case json_txId response of
         Inl m \<Rightarrow> throw m
       | Inr txId \<Rightarrow>
           let txHash = js_or txId (getTxId transaction) in
           andThen (update_withdrawals (db_completed e) withdrawalId
                      (MarkCompleted txHash (now e))) (\<lambda>_.
           andThen (update_transactions (db_transactions e) (user_id withdrawal) txHash) (\<lambda>_.
           respond (Response 200 (Success txHash (explorerUrl txHash))))))))"

definition after_guard_copy :: "env \<Rightarrow> jsval \<Rightarrow> withdrawal \<Rightarrow> unit proc" where
  "after_guard_copy e withdrawalId withdrawal =
     andThen (computeAvailable e) (\<lambda>availableBalance.
     if availableBalance < js_Number (amount withdrawal)
     then andThen (update_withdrawals (db_insufficient e) withdrawalId MarkFailed)
            (\<lambda>_. respond (Response 400 (Insufficient availableBalance)))
     else transfer_phase_copy e withdrawalId withdrawal)"

definition try_block_copy :: "env \<Rightarrow> jsval \<Rightarrow> unit proc" where
  "try_block_copy e withdrawalId =
     andThen (guard_phase_copy e withdrawalId)
       (\<lambda>withdrawal. after_guard_copy e withdrawalId withdrawal)"

text \<open>
  Lines 145-151 of the copy: the update that marks the withdrawal \<^verbatim>\<open>failed\<close> is awaited
  with no \<^verbatim>\<open>try\<close> around it, so when it rejects the handler's promise rejects and
  \<^verbatim>\<open>res.status(500)\<close> is never reached.
\<close>

definition catch_block_copy :: "env \<Rightarrow> jsval \<Rightarrow> string \<Rightarrow> store \<times> event list \<Rightarrow> response \<times> store \<times> event list" where
  "catch_block_copy e withdrawalId err st =
     (case andThen (emit (ConsoleError ''Error:'' err)) (\<lambda>_.
             if truthy withdrawalId
             then update_withdrawals (db_compensate e) withdrawalId MarkFailed
             else ret ()) st of
        (Throw dbError, s', tr') \<Rightarrow> (Unanswered dbError, s', tr')
      | (_, s', tr') \<Rightarrow> (Response 500 (Error err), s', tr'))"

definition finish_copy :: "env \<Rightarrow> jsval \<Rightarrow> unit outcome \<times> store \<times> event list \<Rightarrow> response \<times> store \<times> event list" where
  "finish_copy e withdrawalId r = (case r of
       (Return resp, st) \<Rightarrow> (resp, st)
     | (Throw err, st) \<Rightarrow> catch_block_copy e withdrawalId err st
     | (Next _, st) \<Rightarrow> (Unanswered [], st))"

definition processWithdrawal_copy :: "env \<Rightarrow> jsval \<Rightarrow> store \<Rightarrow> response \<times> store \<times> event list" where
  "processWithdrawal_copy e withdrawalId s =
     finish_copy e withdrawalId (try_block_copy e withdrawalId (s, []))"

section \<open>Observations on a run\<close>

text \<open>The statuses of the rows of \<^verbatim>\<open>withdrawals\<close> with a given id.\<close>

definition status_of :: "jsval \<Rightarrow> store \<Rightarrow> string list" where
  "status_of withdrawalId s =
     map status (filter (\<lambda>w. Str (w_id w) = withdrawalId) (withdrawals s))"

text \<open>The transaction identifiers of the rows with a given id.\<close>

definition tx_hash_of :: "jsval \<Rightarrow> store \<Rightarrow> string option list" where
  "tx_hash_of withdrawalId s =
     map tx_hash (filter (\<lambda>w. Str (w_id w) = withdrawalId) (withdrawals s))"

text \<open>The rows that are \<^verbatim>\<open>completed\<close> and have no transaction identifier.\<close>

definition completed_without_tx :: "store \<Rightarrow> withdrawal list" where
  "completed_without_tx s =
     filter (\<lambda>w. status w = ''completed'' \<and> tx_hash w = None) (withdrawals s)"

text \<open>The calls of \<^verbatim>\<open>POST broadcast-transaction\<close> in a trace.\<close>

fun is_submit :: "event \<Rightarrow> bool" where
  "is_submit (Broadcast p) = True"
| "is_submit (DbUpdateWithdrawal i p) = False"
| "is_submit (DbUpdateTransaction u h) = False"
| "is_submit RpcStatus = False"
| "is_submit (Build a d t) = False"
| "is_submit (ConsoleError l d) = False"

section \<open>Two requests for one id that overlap\<close>

text \<open>
  Node runs a handler until its next \<^verbatim>\<open>await\<close>, and every call of the store is one
  \<^verbatim>\<open>await\<close>. \<open>resume\<close> is the rest of a request whose fetch and status guard have
  run. \<open>overlapped\<close> is the schedule in which the fetch of request B reaches the store
  after the fetch of request A and before anything A writes; A then runs to its end,
  and B after it. Both requests write to one store and one trace.
\<close>

definition resume :: "env \<Rightarrow> jsval \<Rightarrow> withdrawal outcome \<times> store \<times> event list \<Rightarrow> response \<times> store \<times> event list" where
  "resume e withdrawalId r = finish e withdrawalId (case r of
       (Next withdrawal, st) \<Rightarrow> after_guard e withdrawalId withdrawal st
     | (Return resp, st) \<Rightarrow> (Return resp, st)
     | (Throw err, st) \<Rightarrow> (Throw err, st))"

definition overlapped :: "env \<Rightarrow> env \<Rightarrow> jsval \<Rightarrow> store \<Rightarrow> response \<times> response \<times> store \<times> event list" where
  "overlapped eA eB withdrawalId s =
     (case guard_phase eA withdrawalId (s, []) of (gA, stA) \<Rightarrow>
      case guard_phase eB withdrawalId stA of (gB, stB) \<Rightarrow>
      case resume eA withdrawalId (gA, stB) of (rA, stA') \<Rightarrow>
      case resume eB withdrawalId (gB, stA') of (rB, s', tr') \<Rightarrow>
        (rA, rB, s', tr'))"

section \<open>A store and environments to run the handlers on\<close>

definition ex_withdrawal :: withdrawal where
  "ex_withdrawal = \<lparr>w_id = ''w1'', user_id = ''u1'', to_address = ''DEST'',
     amount = Some 500000, status = ''pending'', tx_hash = None, completed_at = None\<rparr>"

definition ex_store :: store where
  "ex_store = \<lparr>withdrawals = [ex_withdrawal],
     transactions =
       [\<lparr>t_user_id = ''u1'', t_type = ''ai_mining'', t_amount = Some 2000000,
          t_status = ''completed'', t_tx_hash = None, created_at = 1\<rparr>,
        \<lparr>t_user_id = ''u1'', t_type = ''withdrawal'', t_amount = Some 500000,
          t_status = ''pending'', t_tx_hash = None, created_at = 2\<rparr>]\<rparr>"

text \<open>
  Everything works: the network is at tick 1000, the broadcast is accepted and its
  body has no \<^verbatim>\<open>txId\<close>, the built transaction knows its id.
\<close>

definition ex_env :: env where
  "ex_env = \<lparr>db_fetch = DbOk, db_aiMined = DbOk, db_totalWithdrawn = DbOk,
     db_insufficient = DbOk, db_completed = DbOk, db_transactions = DbOk,
     db_compensate = DbOk,
     rpc_status = Inr \<lparr>lastProcessedTick = Some (Some 1000)\<rparr>,
     builder = (\<lambda>a d t. Inr \<lparr>base64Transaction = ''cGF5'', getTxId = Str ''txlocal''\<rparr>),
     rpc_broadcast = (\<lambda>p. Inr \<lparr>ok = True, body_text = [], json_txId = Inr Undefined\<rparr>),
     now = ''2024-01-01T00:00:00.000Z''\<rparr>"

text \<open>The builder raises.\<close>

definition ex_env_build_fails :: env where
  "ex_env_build_fails = ex_env\<lparr>builder := (\<lambda>a d t. Inl ''boom'')\<rparr>"

text \<open>The builder raises, and the update in the \<^verbatim>\<open>catch\<close> rejects.\<close>

definition ex_env_store_down :: env where
  "ex_env_store_down = ex_env\<lparr>builder := (\<lambda>a d t. Inl ''boom''), db_compensate := DbThrow ''db down''\<rparr>"

text \<open>The broadcast is accepted, and neither its body nor the transaction gives an id.\<close>

definition ex_env_no_txid :: env where
  "ex_env_no_txid = ex_env\<lparr>builder := (\<lambda>a d t. Inr \<lparr>base64Transaction = ''cGF5'', getTxId = Undefined\<rparr>)\<rparr>"

text \<open>The status endpoint answers without \<^verbatim>\<open>lastProcessedTick\<close>.\<close>

definition ex_env_no_tick :: env where
  "ex_env_no_tick = ex_env\<lparr>rpc_status := Inr \<lparr>lastProcessedTick = None\<rparr>\<rparr>"

text \<open>The broadcast is answered with a non-success status.\<close>

definition ex_env_rejected :: env where
  "ex_env_rejected = ex_env\<lparr>rpc_broadcast := (\<lambda>p. Inr \<lparr>ok = False, body_text = ''bad tick'', json_txId = Inr Undefined\<rparr>)\<rparr>"

text \<open>A store whose ledger has nothing to distribute.\<close>

definition ex_store_poor :: store where
  "ex_store_poor = \<lparr>withdrawals = [ex_withdrawal],
     transactions =
       [\<lparr>t_user_id = ''u1'', t_type = ''ai_mining'', t_amount = Some 100,
          t_status = ''completed'', t_tx_hash = None, created_at = 1\<rparr>]\<rparr>"

text \<open>A store whose withdrawal is already completed.\<close>

definition ex_store_done :: store where
  "ex_store_done = \<lparr>withdrawals = [ex_withdrawal\<lparr>status := ''completed'', tx_hash := Some ''tx0''\<rparr>],
     transactions = []\<rparr>"

section \<open>Facts about the control flow and the store client\<close>

lemmas proc_defs = andThen_def ret_def respond_def throw_def emit_def await_def

lemmas db_defs = select_single_def select_amounts_def update_withdrawals_def
  update_transactions_def

lemmas handler_defs = processWithdrawal_def finish_def try_block_def guard_phase_def
  after_guard_def transfer_phase_def catch_block_def

lemmas handler_copy_defs = processWithdrawal_copy_def finish_copy_def try_block_copy_def
  guard_phase_copy_def after_guard_copy_def transfer_phase_copy_def catch_block_copy_def

lemmas ex_defs = ex_withdrawal_def ex_store_def ex_env_def

lemma update_no_match:
  "filter (\<lambda>w. Str (w_id w) = withdrawalId) ws = [] \<Longrightarrow>
   map (\<lambda>w. if Str (w_id w) = withdrawalId then f w else w) ws = ws"
  by (induction ws) (auto split: if_splits)

lemma apply_update_no_match:
  "filter (\<lambda>w. Str (w_id w) = withdrawalId) (withdrawals s) = [] \<Longrightarrow>
   apply_update withdrawalId p s = s"
  by (simp add: apply_update_def update_no_match)

lemma computeAvailable_frame:
  "computeAvailable e (s, tr) = (r, s', tr') \<Longrightarrow>
   s' = s \<and> tr' = tr \<and> (\<forall>resp. r \<noteq> Return resp)"
  by (auto simp: computeAvailable_def proc_defs db_defs Let_def split: db_outcome.splits)

lemma w_id_apply_patch: "w_id (apply_patch p w) = w_id w"
  by (cases p) simp_all

lemma filter_apply_update:
  "filter (\<lambda>w. Str (w_id w) = i) (withdrawals (apply_update i p s)) =
   map (apply_patch p) (filter (\<lambda>w. Str (w_id w) = i) (withdrawals s))"
proof -
  have "filter (\<lambda>w. Str (w_id w) = i)
          (map (\<lambda>w. if Str (w_id w) = i then apply_patch p w else w) ws) =
        map (apply_patch p) (filter (\<lambda>w. Str (w_id w) = i) ws)" for ws
    by (induction ws) (simp_all add: w_id_apply_patch)
  then show ?thesis by (simp add: apply_update_def)
qed

lemma withdrawals_apply_entry_update:
  "withdrawals (apply_entry_update uid h s) = withdrawals s"
  by (simp add: apply_entry_update_def)

lemma status_of_failed:
  "filter (\<lambda>w. Str (w_id w) = i) (withdrawals s) = [w] \<Longrightarrow>
   status_of i (apply_update i MarkFailed s) = [''failed'']"
  by (simp add: status_of_def filter_apply_update)

lemma status_of_completed:
  "filter (\<lambda>w. Str (w_id w) = i) (withdrawals s) = [w] \<Longrightarrow>
   status_of i (apply_entry_update uid h' (apply_update i (MarkCompleted h t) s)) =
     [''completed'']"
  by (simp add: status_of_def filter_apply_update withdrawals_apply_entry_update)

lemma select_single_Some:
  "select_single oc i (s, tr) = (Next (Some w), s', tr') \<Longrightarrow>
   oc = DbOk \<and> filter (\<lambda>w. Str (w_id w) = i) (withdrawals s) = [w]"
  by (auto simp: select_single_def split: db_outcome.splits list.splits)

lemma guard_rejects_non_pending:
  assumes "truthy i" and "db_fetch e = DbOk"
    and "filter (\<lambda>w. Str (w_id w) = i) (withdrawals s) = [w]"
    and "status w \<noteq> ''pending''"
  shows "processWithdrawal e i s = (Response 400 (Error (''Withdrawal already '' @ status w)), s, [])"
  using assms by (simp add: handler_defs proc_defs db_defs)

section \<open>The status guard\<close>

text \<open>
  Claim C2. When the fetch loads the record and its status is not \<^verbatim>\<open>pending\<close>, the
  handler answers 400 with the current status in the message (\<^verbatim>\<open>Withdrawal already
  <status>\<close>; \<^verbatim>\<open>Already <status>\<close> in the copy), the store is returned unchanged and
  the trace is empty: no write to any table was attempted, no call left the process.
\<close>

theorem status_guard_no_mutation:
  assumes "truthy withdrawalId"
    and "db_fetch e = DbOk"
    and "filter (\<lambda>w. Str (w_id w) = withdrawalId) (withdrawals s) = [w]"
    and "status w \<noteq> ''pending''"
  shows "processWithdrawal e withdrawalId s =
           (Response 400 (Error (''Withdrawal already '' @ status w)), s, [])
       \<and> processWithdrawal_copy e withdrawalId s =
           (Response 400 (Error (''Already '' @ status w)), s, [])"
  using assms
  by (simp add: handler_defs handler_copy_defs proc_defs db_defs)

theorem status_guard_no_mutation_witness:
  "truthy (Str ''w1'') \<and> db_fetch ex_env = DbOk
   \<and> filter (\<lambda>w. Str (w_id w) = Str ''w1'') (withdrawals ex_store_done) =
       [ex_withdrawal\<lparr>status := ''completed'', tx_hash := Some ''tx0''\<rparr>]
   \<and> status (ex_withdrawal\<lparr>status := ''completed'', tx_hash := Some ''tx0''\<rparr>) \<noteq> ''pending''
   \<and> processWithdrawal ex_env (Str ''w1'') ex_store_done =
       (Response 400 (Error ''Withdrawal already completed''), ex_store_done, [])
   \<and> processWithdrawal_copy ex_env (Str ''w1'') ex_store_done =
       (Response 400 (Error ''Already completed''), ex_store_done, [])"
  using status_guard_no_mutation [of "Str ''w1''" ex_env ex_store_done
      "ex_withdrawal\<lparr>status := ''completed'', tx_hash := Some ''tx0''\<rparr>"]
  by (simp add: ex_defs ex_store_done_def)

section \<open>An id without a record\<close>

text \<open>
  Claim C8. When no row of \<^verbatim>\<open>withdrawals\<close> has the id, the store after the call is the
  store before it, whatever the environment does; and when an id was sent and the fetch
  does not reject, the answer is 404 \<^verbatim>\<open>Withdrawal not found\<close> and the only thing
  recorded is the \<^verbatim>\<open>console.error\<close> of that branch. The same holds for the copy, which
  logs nothing there.
\<close>

theorem not_found_no_mutation:
  assumes "filter (\<lambda>w. Str (w_id w) = withdrawalId) (withdrawals s) = []"
  shows "fst (snd (processWithdrawal e withdrawalId s)) = s
       \<and> fst (snd (processWithdrawal_copy e withdrawalId s)) = s
       \<and> (truthy withdrawalId \<and> (\<forall>m. db_fetch e \<noteq> DbThrow m) \<longrightarrow>
            processWithdrawal e withdrawalId s =
              (Response 404 (Error ''Withdrawal not found''), s,
               [ConsoleError ''Withdrawal not found:'' []])
          \<and> processWithdrawal_copy e withdrawalId s =
              (Response 404 (Error ''Withdrawal not found''), s, []))"
proof -
  have main: "fst (snd (processWithdrawal e withdrawalId s)) = s"
    using assms
    by (auto simp: processWithdrawal_def finish_def try_block_def guard_phase_def
        catch_block_def proc_defs db_defs apply_update_no_match split: db_outcome.splits)
  have copy: "fst (snd (processWithdrawal_copy e withdrawalId s)) = s"
    using assms
    by (auto simp: processWithdrawal_copy_def finish_copy_def try_block_copy_def
        guard_phase_copy_def catch_block_copy_def proc_defs db_defs apply_update_no_match
        split: db_outcome.splits)
  have found: "processWithdrawal e withdrawalId s =
              (Response 404 (Error ''Withdrawal not found''), s,
               [ConsoleError ''Withdrawal not found:'' []])
          \<and> processWithdrawal_copy e withdrawalId s =
              (Response 404 (Error ''Withdrawal not found''), s, [])"
    if "truthy withdrawalId" and "\<forall>m. db_fetch e \<noteq> DbThrow m"
    using assms that
    by (cases "db_fetch e")
       (simp_all add: processWithdrawal_def finish_def try_block_def guard_phase_def
        processWithdrawal_copy_def finish_copy_def try_block_copy_def guard_phase_copy_def
        proc_defs db_defs)
  from main copy found show ?thesis by blast
qed

theorem not_found_no_mutation_witness:
  "filter (\<lambda>w. Str (w_id w) = Str ''nope'') (withdrawals ex_store) = []
   \<and> truthy (Str ''nope'') \<and> (\<forall>m. db_fetch ex_env \<noteq> DbThrow m)
   \<and> processWithdrawal ex_env (Str ''nope'') ex_store =
       (Response 404 (Error ''Withdrawal not found''), ex_store,
        [ConsoleError ''Withdrawal not found:'' []])
   \<and> processWithdrawal_copy ex_env (Str ''nope'') ex_store =
       (Response 404 (Error ''Withdrawal not found''), ex_store, [])"
  using not_found_no_mutation [of "Str ''nope''" ex_store ex_env]
  by (simp add: ex_defs)

section \<open>Insufficient balance\<close>

text \<open>
  Claim C5. For a record loaded as \<^verbatim>\<open>pending\<close> whose amount exceeds the available
  balance, the trace of the call holds no broadcast, whatever the store does with the
  update; and when the update is applied, the answer is 400 with the insufficient-balance
  error, the only thing done is that one update, and the record's status is
  \<^verbatim>\<open>failed\<close> afterwards.
\<close>

theorem insufficient_balance_fails:
  assumes "truthy withdrawalId"
    and "db_fetch e = DbOk"
    and "filter (\<lambda>w. Str (w_id w) = withdrawalId) (withdrawals s) = [w]"
    and "status w = ''pending''"
    and "computeAvailable e (s, []) = (Next availableBalance, s, [])"
    and "availableBalance < js_Number (amount w)"
  shows "filter is_submit (snd (snd (processWithdrawal e withdrawalId s))) = []
       \<and> (db_insufficient e = DbOk \<longrightarrow>
            processWithdrawal e withdrawalId s =
              (Response 400 (Insufficient availableBalance),
               apply_update withdrawalId MarkFailed s,
               [DbUpdateWithdrawal withdrawalId MarkFailed])
          \<and> status_of withdrawalId (apply_update withdrawalId MarkFailed s) = [''failed''])"
  using assms
  by (auto simp: handler_defs proc_defs db_defs status_of_failed split: db_outcome.splits)

theorem insufficient_balance_fails_witness:
  "truthy (Str ''w1'') \<and> db_fetch ex_env = DbOk
   \<and> filter (\<lambda>w. Str (w_id w) = Str ''w1'') (withdrawals ex_store_poor) = [ex_withdrawal]
   \<and> status ex_withdrawal = ''pending''
   \<and> computeAvailable ex_env (ex_store_poor, []) = (Next 55, ex_store_poor, [])
   \<and> (55 :: rat) < js_Number (amount ex_withdrawal)
   \<and> db_insufficient ex_env = DbOk
   \<and> processWithdrawal ex_env (Str ''w1'') ex_store_poor =
       (Response 400 (Insufficient 55), apply_update (Str ''w1'') MarkFailed ex_store_poor,
        [DbUpdateWithdrawal (Str ''w1'') MarkFailed])
   \<and> status_of (Str ''w1'') (apply_update (Str ''w1'') MarkFailed ex_store_poor) = [''failed'']"
proof -
  have av: "computeAvailable ex_env (ex_store_poor, []) = (Next 55, ex_store_poor, [])"
    by (simp add: computeAvailable_def proc_defs db_defs Let_def reduce_amounts_def
        amount_or_0_def aiMined_rows_def totalWithdrawn_rows_def ex_defs ex_store_poor_def)
  have lt: "(55 :: rat) < js_Number (amount ex_withdrawal)"
    by (simp add: js_Number_def ex_defs ex_store_poor_def)
  have fl: "filter (\<lambda>w. Str (w_id w) = Str ''w1'') (withdrawals ex_store_poor) = [ex_withdrawal]"
    by (simp add: ex_defs ex_store_poor_def)
  have st: "status ex_withdrawal = ''pending''"
    by (simp add: ex_defs ex_store_poor_def)
  have ok: "db_fetch ex_env = DbOk" "db_insufficient ex_env = DbOk"
    by (simp_all add: ex_defs ex_store_poor_def)
  from insufficient_balance_fails [of "Str ''w1''" ex_env ex_store_poor ex_withdrawal 55]
    av lt fl st ok
  show ?thesis by simp
qed

section \<open>What a successful call did\<close>

lemma guard_phase_Next:
  assumes "guard_phase e i (s, tr) = (Next w, s', tr')"
  shows "truthy i \<and> select_single (db_fetch e) i (s, tr) = (Next (Some w), s, tr)
       \<and> status w = ''pending'' \<and> s' = s \<and> tr' = tr"
  using assms
  by (auto simp: guard_phase_def proc_defs select_single_def
      split: if_splits db_outcome.splits list.splits option.splits)

lemma guard_phase_Return:
  assumes "guard_phase e i (s, tr) = (Return (Response c b), s', tr')"
  shows "c \<noteq> 200"
  using assms
  by (auto simp: guard_phase_def proc_defs select_single_def
      split: if_splits db_outcome.splits list.splits option.splits)

lemma transfer_phase_success:
  assumes "transfer_phase e i w (s, tr) = (Return (Response 200 b), s', tr')"
  shows "\<exists>td tx r txId.
      rpc_status e = Inr td
    \<and> builder e (js_Number (amount w)) (to_address w) (currentTick td + 20) = Inr tx
    \<and> rpc_broadcast e (base64Transaction tx) = Inr r \<and> ok r \<and> json_txId r = Inr txId
    \<and> truthy (js_or txId (getTxId tx))
    \<and> b = Success (js_or txId (getTxId tx)) (explorerUrl (js_or txId (getTxId tx)))
    \<and> tr' = tr @ [RpcStatus,
             Build (js_Number (amount w)) (to_address w) (currentTick td + 20),
             Broadcast (base64Transaction tx),
             DbUpdateWithdrawal i (MarkCompleted (js_or txId (getTxId tx)) (now e)),
             DbUpdateTransaction (user_id w) (js_or txId (getTxId tx))]
    \<and> withdrawals s' = (case db_completed e of
          DbOk \<Rightarrow> withdrawals (apply_update i (MarkCompleted (js_or txId (getTxId tx)) (now e)) s)
        | _ \<Rightarrow> withdrawals s)"
  using assms
  by (auto simp: transfer_phase_def proc_defs update_withdrawals_def update_transactions_def
      Let_def withdrawals_apply_entry_update
      split: if_splits db_outcome.splits sum.splits)

lemma after_guard_success:
  assumes "after_guard e i w (s, tr) = (Return (Response 200 b), s', tr')"
  shows "transfer_phase e i w (s, tr) = (Return (Response 200 b), s', tr')"
proof -
  obtain r0 s0 tr0 where ca: "computeAvailable e (s, tr) = (r0, s0, tr0)"
    by (cases "computeAvailable e (s, tr)") auto
  from computeAvailable_frame[OF ca] have fr: "s0 = s" "tr0 = tr" "\<forall>resp. r0 \<noteq> Return resp" by auto
  show ?thesis
    using assms ca fr
    by (cases r0)
       (auto simp: after_guard_def andThen_def respond_def update_withdrawals_def emit_def
        split: if_splits db_outcome.splits)
qed

lemma catch_block_500: "catch_block e i err st = (Response c b, s', tr') \<Longrightarrow> c = 500"
  by (cases st)
     (auto simp: catch_block_def proc_defs update_withdrawals_def
      split: if_splits db_outcome.splits)

lemma processWithdrawal_success:
  assumes "processWithdrawal e withdrawalId s = (Response 200 b, s', tr)"
  shows "\<exists>w td tx r txId.
      truthy withdrawalId
    \<and> select_single (db_fetch e) withdrawalId (s, []) = (Next (Some w), s, [])
    \<and> status w = ''pending''
    \<and> rpc_status e = Inr td
    \<and> builder e (js_Number (amount w)) (to_address w) (currentTick td + 20) = Inr tx
    \<and> rpc_broadcast e (base64Transaction tx) = Inr r \<and> ok r \<and> json_txId r = Inr txId
    \<and> truthy (js_or txId (getTxId tx))
    \<and> b = Success (js_or txId (getTxId tx)) (explorerUrl (js_or txId (getTxId tx)))
    \<and> tr = [RpcStatus,
             Build (js_Number (amount w)) (to_address w) (currentTick td + 20),
             Broadcast (base64Transaction tx),
             DbUpdateWithdrawal withdrawalId (MarkCompleted (js_or txId (getTxId tx)) (now e)),
             DbUpdateTransaction (user_id w) (js_or txId (getTxId tx))]
    \<and> withdrawals s' = (case db_completed e of
          DbOk \<Rightarrow> withdrawals (apply_update withdrawalId (MarkCompleted (js_or txId (getTxId tx)) (now e)) s)
        | _ \<Rightarrow> withdrawals s)"
proof -
  obtain g sg trg where g: "guard_phase e withdrawalId (s, []) = (g, sg, trg)"
    by (cases "guard_phase e withdrawalId (s, [])") auto
  show ?thesis
  proof (cases g)
    case (Next w)
    from guard_phase_Next[OF g[unfolded Next]]
    have gw: "truthy withdrawalId"
      "select_single (db_fetch e) withdrawalId (s, []) = (Next (Some w), s, [])"
      "status w = ''pending''" "sg = s" "trg = []" by auto
    obtain o1 s1 t1 where ag: "after_guard e withdrawalId w (s, []) = (o1, s1, t1)"
      by (cases "after_guard e withdrawalId w (s, [])") auto
    have "o1 = Return (Response 200 b) \<and> s1 = s' \<and> t1 = tr"
      using assms g Next gw ag catch_block_500[of e withdrawalId _ "(s1, t1)" 200 b s' tr]
      by (cases o1) (auto simp: processWithdrawal_def finish_def try_block_def andThen_def)
    with ag have "transfer_phase e withdrawalId w (s, []) = (Return (Response 200 b), s', tr)"
      using after_guard_success by blast
    from transfer_phase_success[OF this] gw show ?thesis
      by (auto simp del: append.simps) 
  next
    case (Return resp)
    with assms g have "resp = Response 200 b"
      by (auto simp: processWithdrawal_def finish_def try_block_def andThen_def)
    with g Return guard_phase_Return[of e withdrawalId s "[]" 200 b sg trg] show ?thesis by simp
  next
    case (Throw m)
    with assms g catch_block_500[of e withdrawalId m "(sg, trg)" 200 b s' tr] show ?thesis
      by (auto simp: processWithdrawal_def finish_def try_block_def andThen_def)
  qed
qed

lemma currentTick_tickNumber: "lastProcessedTick td = Some (Some n) \<Longrightarrow> currentTick td = n"
  by (simp add: currentTick_def)

section \<open>The target tick\<close>

text \<open>
  Claim C9. Every call that ends with the success response read the status endpoint in
  that call, then called the builder once, with the tick \<^verbatim>\<open>currentTick + 20\<close>, where
  \<^verbatim>\<open>currentTick\<close> is the \<^verbatim>\<open>tickNumber\<close> the status response carries; the builder
  accepted that tick, and the trace of the call is exactly: status, build, broadcast,
  the two updates.
\<close>

theorem target_tick_is_current_plus_20:
  assumes "processWithdrawal e withdrawalId s = (Response 200 b, s', tr)"
  shows "\<exists>(td :: tickData) (w :: withdrawal) (tx :: built) txHash.
      rpc_status e = Inr td
    \<and> builder e (js_Number (amount w)) (to_address w) (currentTick td + 20) = Inr tx
    \<and> tr = [RpcStatus,
             Build (js_Number (amount w)) (to_address w) (currentTick td + 20),
             Broadcast (base64Transaction tx),
             DbUpdateWithdrawal withdrawalId (MarkCompleted txHash (now e)),
             DbUpdateTransaction (user_id w) txHash]
    \<and> (\<forall>n. lastProcessedTick td = Some (Some n) \<longrightarrow> currentTick td = n)"
proof -
  from processWithdrawal_success[OF assms]
  obtain w :: withdrawal and td :: tickData and tx :: built and txId where
    "rpc_status e = Inr td"
    "builder e (js_Number (amount w)) (to_address w) (currentTick td + 20) = Inr tx"
    "tr = [RpcStatus,
             Build (js_Number (amount w)) (to_address w) (currentTick td + 20),
             Broadcast (base64Transaction tx),
             DbUpdateWithdrawal withdrawalId (MarkCompleted (js_or txId (getTxId tx)) (now e)),
             DbUpdateTransaction (user_id w) (js_or txId (getTxId tx))]"
    by blast
  moreover have "\<forall>n. lastProcessedTick td = Some (Some n) \<longrightarrow> currentTick td = n"
    by (simp add: currentTick_tickNumber)
  ultimately show ?thesis by blast
qed

lemma ex_run:
  "processWithdrawal ex_env (Str ''w1'') ex_store =
     (Response 200 (Success (Str ''txlocal'') ''https://explorer.qubic.org/network/tx/txlocal''),
      apply_entry_update ''u1'' (Str ''txlocal'')
        (apply_update (Str ''w1'') (MarkCompleted (Str ''txlocal'') ''2024-01-01T00:00:00.000Z'')
           ex_store),
      [RpcStatus, Build 500000 ''DEST'' 1020, Broadcast ''cGF5'',
       DbUpdateWithdrawal (Str ''w1'')
         (MarkCompleted (Str ''txlocal'') ''2024-01-01T00:00:00.000Z''),
       DbUpdateTransaction ''u1'' (Str ''txlocal'')])"
  by (simp add: handler_defs proc_defs db_defs computeAvailable_def Let_def reduce_amounts_def
      amount_or_0_def aiMined_rows_def totalWithdrawn_rows_def js_Number_def currentTick_def
      js_or_def explorerUrl_def ex_defs)

theorem target_tick_is_current_plus_20_witness:
  "processWithdrawal ex_env (Str ''w1'') ex_store =
     (Response 200 (Success (Str ''txlocal'') ''https://explorer.qubic.org/network/tx/txlocal''),
      apply_entry_update ''u1'' (Str ''txlocal'')
        (apply_update (Str ''w1'') (MarkCompleted (Str ''txlocal'') ''2024-01-01T00:00:00.000Z'')
           ex_store),
      [RpcStatus, Build 500000 ''DEST'' 1020, Broadcast ''cGF5'',
       DbUpdateWithdrawal (Str ''w1'')
         (MarkCompleted (Str ''txlocal'') ''2024-01-01T00:00:00.000Z''),
       DbUpdateTransaction ''u1'' (Str ''txlocal'')])
   \<and> (\<exists>(td :: tickData) (w :: withdrawal) (tx :: built) txHash.
        rpc_status ex_env = Inr td
      \<and> builder ex_env (js_Number (amount w)) (to_address w) (currentTick td + 20) = Inr tx
      \<and> [RpcStatus, Build 500000 ''DEST'' 1020, Broadcast ''cGF5'',
          DbUpdateWithdrawal (Str ''w1'')
            (MarkCompleted (Str ''txlocal'') ''2024-01-01T00:00:00.000Z''),
          DbUpdateTransaction ''u1'' (Str ''txlocal'')] =
         [RpcStatus,
          Build (js_Number (amount w)) (to_address w) (currentTick td + 20),
          Broadcast (base64Transaction tx),
          DbUpdateWithdrawal (Str ''w1'') (MarkCompleted txHash (now ex_env)),
          DbUpdateTransaction (user_id w) txHash]
      \<and> (\<forall>n. lastProcessedTick td = Some (Some n) \<longrightarrow> currentTick td = n))"
  by (rule conjI [OF ex_run target_tick_is_current_plus_20 [OF ex_run]])

section \<open>Evaluating the handlers\<close>

text \<open>
  The handlers run on the example store, in the environments defined above. Each run is
  computed by rewriting with the definitions.
\<close>

lemmas eval_defs = computeAvailable_def Let_def reduce_amounts_def
      amount_or_0_def aiMined_rows_def totalWithdrawn_rows_def js_Number_def currentTick_def
      js_or_def explorerUrl_def

lemma ex_build_fails_run:
  "processWithdrawal ex_env_build_fails (Str ''w1'') ex_store =
     (Response 500 (Error ''boom''), apply_update (Str ''w1'') MarkFailed ex_store,
      [RpcStatus, Build 500000 ''DEST'' 1020,
       ConsoleError ''Withdrawal processing error:'' ''boom'',
       DbUpdateWithdrawal (Str ''w1'') MarkFailed])"
  by (simp add: handler_defs proc_defs db_defs eval_defs ex_defs ex_env_build_fails_def)

lemma ex_rejected_run:
  "processWithdrawal ex_env_rejected (Str ''w1'') ex_store =
     (Response 500 (Error ''Broadcast failed: bad tick''),
      apply_update (Str ''w1'') MarkFailed ex_store,
      [RpcStatus, Build 500000 ''DEST'' 1020, Broadcast ''cGF5'',
       ConsoleError ''Broadcast failed:'' ''bad tick'',
       ConsoleError ''Withdrawal processing error:'' ''Broadcast failed: bad tick'',
       DbUpdateWithdrawal (Str ''w1'') MarkFailed])"
  by (simp add: handler_defs proc_defs db_defs eval_defs ex_defs ex_env_rejected_def)

lemma ex_overlapped_run:
  "overlapped ex_env ex_env (Str ''w1'') ex_store =
     (Response 200 (Success (Str ''txlocal'') ''https://explorer.qubic.org/network/tx/txlocal''),
      Response 200 (Success (Str ''txlocal'') ''https://explorer.qubic.org/network/tx/txlocal''),
      apply_entry_update ''u1'' (Str ''txlocal'')
        (apply_update (Str ''w1'') (MarkCompleted (Str ''txlocal'') ''2024-01-01T00:00:00.000Z'')
           ex_store),
      [RpcStatus, Build 500000 ''DEST'' 1020, Broadcast ''cGF5'',
       DbUpdateWithdrawal (Str ''w1'')
         (MarkCompleted (Str ''txlocal'') ''2024-01-01T00:00:00.000Z''),
       DbUpdateTransaction ''u1'' (Str ''txlocal''),
       RpcStatus, Build 500000 ''DEST'' 1020, Broadcast ''cGF5'',
       DbUpdateWithdrawal (Str ''w1'')
         (MarkCompleted (Str ''txlocal'') ''2024-01-01T00:00:00.000Z''),
       DbUpdateTransaction ''u1'' (Str ''txlocal'')])"
  by (simp add: overlapped_def resume_def finish_def guard_phase_def after_guard_def
      transfer_phase_def proc_defs db_defs eval_defs ex_defs apply_update_def
      apply_entry_update_def update_latest_entry_def pending_entry_def complete_entry_def)

lemma ex_no_txid_copy_run:
  "processWithdrawal_copy ex_env_no_txid (Str ''w1'') ex_store =
     (Response 200 (Success Undefined ''https://explorer.qubic.org/network/tx/undefined''),
      apply_entry_update ''u1'' Undefined
        (apply_update (Str ''w1'') (MarkCompleted Undefined ''2024-01-01T00:00:00.000Z'') ex_store),
      [RpcStatus, Build 500000 ''DEST'' 1020, Broadcast ''cGF5'',
       DbUpdateWithdrawal (Str ''w1'') (MarkCompleted Undefined ''2024-01-01T00:00:00.000Z''),
       DbUpdateTransaction ''u1'' Undefined])"
  by (simp add: handler_copy_defs proc_defs db_defs eval_defs ex_defs ex_env_no_txid_def)

lemma ex_no_txid_run:
  "processWithdrawal ex_env_no_txid (Str ''w1'') ex_store =
     (Response 500 (Error ''No transaction ID returned from broadcast''),
      apply_update (Str ''w1'') MarkFailed ex_store,
      [RpcStatus, Build 500000 ''DEST'' 1020, Broadcast ''cGF5'',
       ConsoleError ''Withdrawal processing error:'' ''No transaction ID returned from broadcast'',
       DbUpdateWithdrawal (Str ''w1'') MarkFailed])"
  by (simp add: handler_defs proc_defs db_defs eval_defs ex_defs ex_env_no_txid_def)

lemma ex_store_down_copy_run:
  "processWithdrawal_copy ex_env_store_down (Str ''w1'') ex_store =
     (Unanswered ''db down'', ex_store,
      [RpcStatus, Build 500000 ''DEST'' 1020, ConsoleError ''Error:'' ''boom'',
       DbUpdateWithdrawal (Str ''w1'') MarkFailed])"
  by (simp add: handler_copy_defs proc_defs db_defs eval_defs ex_defs ex_env_store_down_def)

lemma ex_store_down_run:
  "processWithdrawal ex_env_store_down (Str ''w1'') ex_store =
     (Response 500 (Error ''boom''), ex_store,
      [RpcStatus, Build 500000 ''DEST'' 1020,
       ConsoleError ''Withdrawal processing error:'' ''boom'',
       DbUpdateWithdrawal (Str ''w1'') MarkFailed,
       ConsoleError ''Failed to update withdrawal status:'' ''db down''])"
  by (simp add: handler_defs proc_defs db_defs eval_defs ex_defs ex_env_store_down_def)

section \<open>A status response without a tick\<close>

lemma currentTick_absent:
  "lastProcessedTick td = None \<or> lastProcessedTick td = Some None
     \<or> lastProcessedTick td = Some (Some 0) \<Longrightarrow> currentTick td = 0"
  by (auto simp: currentTick_def)

text \<open>
  Claim C10. When the status response has no \<^verbatim>\<open>lastProcessedTick\<close>, or no
  \<^verbatim>\<open>tickNumber\<close> in it, or the tick number 0, the current tick is taken to be 0 and
  nothing is thrown: for a pending record with enough balance the builder is called
  with tick 20, and when it builds, the broadcast is accepted, a transaction identifier
  is at hand and the two updates are applied, the call answers with the success
  response and the record is \<^verbatim>\<open>completed\<close>. The copy does the same.
\<close>

theorem missing_tick_defaults_to_zero:
  assumes "truthy withdrawalId"
    and "db_fetch e = DbOk"
    and "filter (\<lambda>w. Str (w_id w) = withdrawalId) (withdrawals s) = [w]"
    and "status w = ''pending''"
    and "computeAvailable e (s, []) = (Next availableBalance, s, [])"
    and "\<not> availableBalance < js_Number (amount w)"
    and "rpc_status e = Inr td"
    and "lastProcessedTick td = None \<or> lastProcessedTick td = Some None
           \<or> lastProcessedTick td = Some (Some 0)"
    and "builder e (js_Number (amount w)) (to_address w) 20 = Inr tx"
    and "rpc_broadcast e (base64Transaction tx) = Inr r"
    and "ok r"
    and "json_txId r = Inr txId"
    and "truthy (js_or txId (getTxId tx))"
    and "db_completed e = DbOk"
    and "db_transactions e = DbOk"
  shows "currentTick td = 0
       \<and> processWithdrawal e withdrawalId s =
           (Response 200 (Success (js_or txId (getTxId tx)) (explorerUrl (js_or txId (getTxId tx)))),
            apply_entry_update (user_id w) (js_or txId (getTxId tx))
              (apply_update withdrawalId (MarkCompleted (js_or txId (getTxId tx)) (now e)) s),
            [RpcStatus,
             Build (js_Number (amount w)) (to_address w) 20,
             Broadcast (base64Transaction tx),
             DbUpdateWithdrawal withdrawalId (MarkCompleted (js_or txId (getTxId tx)) (now e)),
             DbUpdateTransaction (user_id w) (js_or txId (getTxId tx))])
       \<and> processWithdrawal_copy e withdrawalId s = processWithdrawal e withdrawalId s
       \<and> status_of withdrawalId
            (apply_entry_update (user_id w) (js_or txId (getTxId tx))
              (apply_update withdrawalId (MarkCompleted (js_or txId (getTxId tx)) (now e)) s)) =
           [''completed'']"
proof -
  have t0: "currentTick td = 0"
    using assms(8) by (rule currentTick_absent)
  have main: "processWithdrawal e withdrawalId s =
           (Response 200 (Success (js_or txId (getTxId tx)) (explorerUrl (js_or txId (getTxId tx)))),
            apply_entry_update (user_id w) (js_or txId (getTxId tx))
              (apply_update withdrawalId (MarkCompleted (js_or txId (getTxId tx)) (now e)) s),
            [RpcStatus,
             Build (js_Number (amount w)) (to_address w) 20,
             Broadcast (base64Transaction tx),
             DbUpdateWithdrawal withdrawalId (MarkCompleted (js_or txId (getTxId tx)) (now e)),
             DbUpdateTransaction (user_id w) (js_or txId (getTxId tx))])"
    using assms t0
    by (simp add: handler_defs proc_defs db_defs Let_def)
  have copy: "processWithdrawal_copy e withdrawalId s =
           (Response 200 (Success (js_or txId (getTxId tx)) (explorerUrl (js_or txId (getTxId tx)))),
            apply_entry_update (user_id w) (js_or txId (getTxId tx))
              (apply_update withdrawalId (MarkCompleted (js_or txId (getTxId tx)) (now e)) s),
            [RpcStatus,
             Build (js_Number (amount w)) (to_address w) 20,
             Broadcast (base64Transaction tx),
             DbUpdateWithdrawal withdrawalId (MarkCompleted (js_or txId (getTxId tx)) (now e)),
             DbUpdateTransaction (user_id w) (js_or txId (getTxId tx))])"
    using assms t0
    by (simp add: handler_copy_defs proc_defs db_defs Let_def)
  from t0 main copy status_of_completed[OF assms(3)] show ?thesis by simp
qed

theorem missing_tick_defaults_to_zero_witness:
  "rpc_status ex_env_no_tick = Inr \<lparr>lastProcessedTick = None\<rparr>
   \<and> status_of (Str ''w1'') ex_store = [''pending'']
   \<and> currentTick \<lparr>lastProcessedTick = None\<rparr> = 0
   \<and> processWithdrawal ex_env_no_tick (Str ''w1'') ex_store =
       (Response 200 (Success (Str ''txlocal'') (explorerUrl (Str ''txlocal''))),
        apply_entry_update ''u1'' (Str ''txlocal'')
          (apply_update (Str ''w1'') (MarkCompleted (Str ''txlocal'') ''2024-01-01T00:00:00.000Z'')
             ex_store),
        [RpcStatus, Build 500000 ''DEST'' 20, Broadcast ''cGF5'',
         DbUpdateWithdrawal (Str ''w1'')
           (MarkCompleted (Str ''txlocal'') ''2024-01-01T00:00:00.000Z''),
         DbUpdateTransaction ''u1'' (Str ''txlocal'')])
   \<and> processWithdrawal_copy ex_env_no_tick (Str ''w1'') ex_store =
       processWithdrawal ex_env_no_tick (Str ''w1'') ex_store
   \<and> status_of (Str ''w1'')
        (apply_entry_update ''u1'' (Str ''txlocal'')
          (apply_update (Str ''w1'') (MarkCompleted (Str ''txlocal'') ''2024-01-01T00:00:00.000Z'')
             ex_store)) = [''completed'']"
proof -
  have av: "computeAvailable ex_env_no_tick (ex_store, []) = (Next 1100000, ex_store, [])"
    by (simp add: computeAvailable_def proc_defs db_defs Let_def reduce_amounts_def
        amount_or_0_def aiMined_rows_def totalWithdrawn_rows_def ex_defs ex_env_no_tick_def)
  have hyps:
    "truthy (Str ''w1'')"
    "db_fetch ex_env_no_tick = DbOk"
    "filter (\<lambda>w. Str (w_id w) = Str ''w1'') (withdrawals ex_store) = [ex_withdrawal]"
    "status ex_withdrawal = ''pending''"
    "\<not> (1100000 :: rat) < js_Number (amount ex_withdrawal)"
    "rpc_status ex_env_no_tick = Inr \<lparr>lastProcessedTick = None\<rparr>"
    "builder ex_env_no_tick (js_Number (amount ex_withdrawal)) (to_address ex_withdrawal) 20 =
       Inr \<lparr>base64Transaction = ''cGF5'', getTxId = Str ''txlocal''\<rparr>"
    "rpc_broadcast ex_env_no_tick (base64Transaction \<lparr>base64Transaction = ''cGF5'', getTxId = Str ''txlocal''\<rparr>) =
       Inr \<lparr>ok = True, body_text = [], json_txId = Inr Undefined\<rparr>"
    "ok \<lparr>ok = True, body_text = [], json_txId = Inr Undefined\<rparr>"
    "json_txId \<lparr>ok = True, body_text = [], json_txId = Inr Undefined\<rparr> = Inr Undefined"
    "truthy (js_or Undefined (getTxId \<lparr>base64Transaction = ''cGF5'', getTxId = Str ''txlocal''\<rparr>))"
    "db_completed ex_env_no_tick = DbOk"
    "db_transactions ex_env_no_tick = DbOk"
    by (simp_all add: ex_defs ex_env_no_tick_def js_Number_def js_or_def)
  have st: "status_of (Str ''w1'') ex_store = [''pending'']"
    by (simp add: status_of_def ex_defs ex_env_no_tick_def)
  from missing_tick_defaults_to_zero [of "Str ''w1''" ex_env_no_tick ex_store ex_withdrawal
      1100000 "\<lparr>lastProcessedTick = None\<rparr>"
      "\<lparr>base64Transaction = ''cGF5'', getTxId = Str ''txlocal''\<rparr>"
      "\<lparr>ok = True, body_text = [], json_txId = Inr Undefined\<rparr>" Undefined,
      OF hyps(1-4) av hyps(5,6) _ hyps(7-13)] st hyps(6)
  show ?thesis
    by (simp add: js_or_def js_Number_def ex_withdrawal_def ex_env_no_tick_def ex_env_def)
qed

section \<open>A failed build or a rejected broadcast\<close>

text \<open>
  Claim C1, as the code has it. For a record loaded as \<^verbatim>\<open>pending\<close> with enough
  balance: when the builder raises, or the broadcast is answered with a non-success
  status, the error reaches the \<^verbatim>\<open>catch\<close>, which answers 500 with the error's message
  (\<^verbatim>\<open>Broadcast failed: <body>\<close> for the broadcast) after it has updated the
  withdrawal to \<^verbatim>\<open>failed\<close>; with that update applied, the status of the record is
  \<^verbatim>\<open>failed\<close>, not \<^verbatim>\<open>pending\<close>.
\<close>

theorem transfer_failure_marks_failed:
  assumes "truthy withdrawalId"
    and "db_fetch e = DbOk"
    and "filter (\<lambda>w. Str (w_id w) = withdrawalId) (withdrawals s) = [w]"
    and "status w = ''pending''"
    and "computeAvailable e (s, []) = (Next availableBalance, s, [])"
    and "\<not> availableBalance < js_Number (amount w)"
    and "rpc_status e = Inr td"
    and "db_compensate e = DbOk"
  shows "(\<forall>m. builder e (js_Number (amount w)) (to_address w) (currentTick td + 20) = Inl m \<longrightarrow>
            processWithdrawal e withdrawalId s =
              (Response 500 (Error (if m = [] then ''Unknown error occurred'' else m)),
               apply_update withdrawalId MarkFailed s,
               [RpcStatus,
                Build (js_Number (amount w)) (to_address w) (currentTick td + 20),
                ConsoleError ''Withdrawal processing error:'' m,
                DbUpdateWithdrawal withdrawalId MarkFailed]))
       \<and> (\<forall>tx r. builder e (js_Number (amount w)) (to_address w) (currentTick td + 20) = Inr tx
              \<and> rpc_broadcast e (base64Transaction tx) = Inr r \<and> \<not> ok r \<longrightarrow>
            processWithdrawal e withdrawalId s =
              (Response 500 (Error (''Broadcast failed: '' @ body_text r)),
               apply_update withdrawalId MarkFailed s,
               [RpcStatus,
                Build (js_Number (amount w)) (to_address w) (currentTick td + 20),
                Broadcast (base64Transaction tx),
                ConsoleError ''Broadcast failed:'' (body_text r),
                ConsoleError ''Withdrawal processing error:'' (''Broadcast failed: '' @ body_text r),
                DbUpdateWithdrawal withdrawalId MarkFailed]))
       \<and> status_of withdrawalId (apply_update withdrawalId MarkFailed s) = [''failed'']
       \<and> (\<forall>e'. db_fetch e' = DbOk \<longrightarrow>
            processWithdrawal e' withdrawalId (apply_update withdrawalId MarkFailed s) =
              (Response 400 (Error ''Withdrawal already failed''),
               apply_update withdrawalId MarkFailed s, []))"
proof -
  have retry: "processWithdrawal e' withdrawalId (apply_update withdrawalId MarkFailed s) =
      (Response 400 (Error ''Withdrawal already failed''),
       apply_update withdrawalId MarkFailed s, [])"
    if "db_fetch e' = DbOk" for e'
  proof -
    have one: "filter (\<lambda>w. Str (w_id w) = withdrawalId)
        (withdrawals (apply_update withdrawalId MarkFailed s)) = [apply_patch MarkFailed w]"
      by (simp add: filter_apply_update assms(3))
    from guard_rejects_non_pending [OF assms(1) that one] show ?thesis by simp
  qed
  have run: "(\<forall>m. builder e (js_Number (amount w)) (to_address w) (currentTick td + 20) = Inl m \<longrightarrow>
            processWithdrawal e withdrawalId s =
              (Response 500 (Error (if m = [] then ''Unknown error occurred'' else m)),
               apply_update withdrawalId MarkFailed s,
               [RpcStatus,
                Build (js_Number (amount w)) (to_address w) (currentTick td + 20),
                ConsoleError ''Withdrawal processing error:'' m,
                DbUpdateWithdrawal withdrawalId MarkFailed]))
       \<and> (\<forall>tx r. builder e (js_Number (amount w)) (to_address w) (currentTick td + 20) = Inr tx
              \<and> rpc_broadcast e (base64Transaction tx) = Inr r \<and> \<not> ok r \<longrightarrow>
            processWithdrawal e withdrawalId s =
              (Response 500 (Error (''Broadcast failed: '' @ body_text r)),
               apply_update withdrawalId MarkFailed s,
               [RpcStatus,
                Build (js_Number (amount w)) (to_address w) (currentTick td + 20),
                Broadcast (base64Transaction tx),
                ConsoleError ''Broadcast failed:'' (body_text r),
                ConsoleError ''Withdrawal processing error:'' (''Broadcast failed: '' @ body_text r),
                DbUpdateWithdrawal withdrawalId MarkFailed]))"
    using assms
    by (auto simp: handler_defs proc_defs db_defs Let_def)
  from run retry status_of_failed [OF assms(3)] show ?thesis by blast
qed

theorem transfer_failure_marks_failed_witness:
  "status_of (Str ''w1'') ex_store = [''pending'']
   \<and> builder ex_env_build_fails 500000 ''DEST'' 1020 = Inl ''boom''
   \<and> processWithdrawal ex_env_build_fails (Str ''w1'') ex_store =
       (Response 500 (Error ''boom''), apply_update (Str ''w1'') MarkFailed ex_store,
        [RpcStatus, Build 500000 ''DEST'' 1020,
         ConsoleError ''Withdrawal processing error:'' ''boom'',
         DbUpdateWithdrawal (Str ''w1'') MarkFailed])
   \<and> rpc_broadcast ex_env_rejected ''cGF5'' =
       Inr \<lparr>ok = False, body_text = ''bad tick'', json_txId = Inr Undefined\<rparr>
   \<and> processWithdrawal ex_env_rejected (Str ''w1'') ex_store =
       (Response 500 (Error ''Broadcast failed: bad tick''),
        apply_update (Str ''w1'') MarkFailed ex_store,
        [RpcStatus, Build 500000 ''DEST'' 1020, Broadcast ''cGF5'',
         ConsoleError ''Broadcast failed:'' ''bad tick'',
         ConsoleError ''Withdrawal processing error:'' ''Broadcast failed: bad tick'',
         DbUpdateWithdrawal (Str ''w1'') MarkFailed])
   \<and> status_of (Str ''w1'') (apply_update (Str ''w1'') MarkFailed ex_store) = [''failed'']
   \<and> db_fetch ex_env = DbOk
   \<and> processWithdrawal ex_env (Str ''w1'') (apply_update (Str ''w1'') MarkFailed ex_store) =
       (Response 400 (Error ''Withdrawal already failed''),
        apply_update (Str ''w1'') MarkFailed ex_store, [])"
proof -
  have av1: "computeAvailable ex_env_build_fails (ex_store, []) = (Next 1100000, ex_store, [])"
    by (simp add: computeAvailable_def proc_defs db_defs Let_def reduce_amounts_def
        amount_or_0_def aiMined_rows_def totalWithdrawn_rows_def ex_defs ex_env_build_fails_def ex_env_rejected_def)
  have av2: "computeAvailable ex_env_rejected (ex_store, []) = (Next 1100000, ex_store, [])"
    by (simp add: computeAvailable_def proc_defs db_defs Let_def reduce_amounts_def
        amount_or_0_def aiMined_rows_def totalWithdrawn_rows_def ex_defs ex_env_build_fails_def ex_env_rejected_def)
  have common:
    "truthy (Str ''w1'')"
    "filter (\<lambda>w. Str (w_id w) = Str ''w1'') (withdrawals ex_store) = [ex_withdrawal]"
    "status ex_withdrawal = ''pending''"
    "\<not> (1100000 :: rat) < js_Number (amount ex_withdrawal)"
    by (simp_all add: ex_defs ex_env_build_fails_def ex_env_rejected_def js_Number_def)
  have e1:
    "db_fetch ex_env_build_fails = DbOk"
    "rpc_status ex_env_build_fails = Inr \<lparr>lastProcessedTick = Some (Some 1000)\<rparr>"
    "db_compensate ex_env_build_fails = DbOk"
    "builder ex_env_build_fails 500000 ''DEST'' 1020 = Inl ''boom''"
    by (simp_all add: ex_defs ex_env_build_fails_def ex_env_rejected_def)
  have e2:
    "db_fetch ex_env_rejected = DbOk"
    "rpc_status ex_env_rejected = Inr \<lparr>lastProcessedTick = Some (Some 1000)\<rparr>"
    "db_compensate ex_env_rejected = DbOk"
    "builder ex_env_rejected 500000 ''DEST'' 1020 =
       Inr \<lparr>base64Transaction = ''cGF5'', getTxId = Str ''txlocal''\<rparr>"
    "rpc_broadcast ex_env_rejected ''cGF5'' =
       Inr \<lparr>ok = False, body_text = ''bad tick'', json_txId = Inr Undefined\<rparr>"
    by (simp_all add: ex_defs ex_env_build_fails_def ex_env_rejected_def)
  have vals: "js_Number (amount ex_withdrawal) = 500000" "to_address ex_withdrawal = ''DEST''"
    "currentTick \<lparr>lastProcessedTick = Some (Some 1000)\<rparr> + 20 = 1020"
    by (simp_all add: ex_defs ex_env_build_fails_def ex_env_rejected_def js_Number_def currentTick_def)
  have st: "status_of (Str ''w1'') ex_store = [''pending'']"
    by (simp add: status_of_def ex_defs ex_env_build_fails_def ex_env_rejected_def)
  have fe: "db_fetch ex_env = DbOk"
    by (simp add: ex_defs ex_env_build_fails_def ex_env_rejected_def)
  from transfer_failure_marks_failed [OF common(1) e1(1) common(2,3) av1 common(4) e1(2,3)]
    transfer_failure_marks_failed [OF common(1) e2(1) common(2,3) av2 common(4) e2(2,3)]
    e1(4) e2(4,5) st fe
  show ?thesis
    by (simp add: vals)
qed

text \<open>
  Claim C1, as the spec states it, fails: the record of \<open>ex_store\<close> is \<^verbatim>\<open>pending\<close>,
  the builder of \<open>ex_env_build_fails\<close> raises, the broadcast of \<open>ex_env_rejected\<close> is
  refused, and after either call the status of the record is \<^verbatim>\<open>failed\<close>.
\<close>

theorem transfer_failure_not_pending_counterexample:
  "status_of (Str ''w1'') ex_store = [''pending'']
   \<and> builder ex_env_build_fails 500000 ''DEST'' 1020 = Inl ''boom''
   \<and> fst (processWithdrawal ex_env_build_fails (Str ''w1'') ex_store) = Response 500 (Error ''boom'')
   \<and> status_of (Str ''w1'') (fst (snd (processWithdrawal ex_env_build_fails (Str ''w1'') ex_store))) =
       [''failed'']
   \<and> rpc_broadcast ex_env_rejected ''cGF5'' =
       Inr \<lparr>ok = False, body_text = ''bad tick'', json_txId = Inr Undefined\<rparr>
   \<and> fst (processWithdrawal ex_env_rejected (Str ''w1'') ex_store) =
       Response 500 (Error ''Broadcast failed: bad tick'')
   \<and> status_of (Str ''w1'') (fst (snd (processWithdrawal ex_env_rejected (Str ''w1'') ex_store))) =
       [''failed'']"
  by (simp add: ex_build_fails_run ex_rejected_run)
     (simp add: ex_defs ex_env_build_fails_def ex_env_rejected_def status_of_def apply_update_def)

section \<open>Two calls for one pending id\<close>

lemma processWithdrawal_resume:
  "processWithdrawal e i s = resume e i (guard_phase e i (s, []))"
  by (cases "guard_phase e i (s, [])")
     (simp add: processWithdrawal_def resume_def try_block_def andThen_def split: outcome.splits)

text \<open>
  Claim C3, as the code has it. The handler has no conditional update and takes no lock;
  what it gives is the guard of a later call: when a call for a pending id ended with the
  success response and its \<^verbatim>\<open>completed\<close> update was applied, a call for the same id
  that starts afterwards and loads the record finds it \<^verbatim>\<open>completed\<close>, answers 400
  \<^verbatim>\<open>Withdrawal already completed\<close>, broadcasts nothing and writes nothing.
\<close>

theorem sequential_second_call_rejected:
  assumes "processWithdrawal e1 withdrawalId s = (Response 200 b, s1, tr1)"
    and "db_completed e1 = DbOk"
    and "db_fetch e2 = DbOk"
  shows "status_of withdrawalId s = [''pending'']
       \<and> status_of withdrawalId s1 = [''completed'']
       \<and> processWithdrawal e2 withdrawalId s1 =
           (Response 400 (Error ''Withdrawal already completed''), s1, [])"
proof -
  from processWithdrawal_success [OF assms(1)]
  obtain w :: withdrawal and h t where
    tr: "truthy withdrawalId"
    and sel: "select_single (db_fetch e1) withdrawalId (s, []) = (Next (Some w), s, [])"
    and pend: "status w = ''pending''"
    and ws: "withdrawals s1 = (case db_completed e1 of
          DbOk \<Rightarrow> withdrawals (apply_update withdrawalId (MarkCompleted h t) s)
        | _ \<Rightarrow> withdrawals s)"
    by blast
  from select_single_Some [OF sel]
  have one: "filter (\<lambda>w. Str (w_id w) = withdrawalId) (withdrawals s) = [w]" by simp
  from ws assms(2)
  have ws1: "withdrawals s1 = withdrawals (apply_update withdrawalId (MarkCompleted h t) s)"
    by simp
  have one1: "filter (\<lambda>w. Str (w_id w) = withdrawalId) (withdrawals s1) =
      [apply_patch (MarkCompleted h t) w]"
    by (simp add: ws1 filter_apply_update one)
  have st1: "status (apply_patch (MarkCompleted h t) w) = ''completed''" by simp
  from guard_rejects_non_pending [OF tr assms(3) one1] st1
  have "processWithdrawal e2 withdrawalId s1 =
           (Response 400 (Error ''Withdrawal already completed''), s1, [])"
    by simp
  moreover have "status_of withdrawalId s = [''pending'']"
    by (simp add: status_of_def one pend)
  moreover have "status_of withdrawalId s1 = [''completed'']"
    by (simp add: status_of_def one1)
  ultimately show ?thesis by simp
qed

theorem sequential_second_call_rejected_witness:
  "processWithdrawal ex_env (Str ''w1'') ex_store =
     (Response 200 (Success (Str ''txlocal'') ''https://explorer.qubic.org/network/tx/txlocal''),
      apply_entry_update ''u1'' (Str ''txlocal'')
        (apply_update (Str ''w1'') (MarkCompleted (Str ''txlocal'') ''2024-01-01T00:00:00.000Z'')
           ex_store),
      [RpcStatus, Build 500000 ''DEST'' 1020, Broadcast ''cGF5'',
       DbUpdateWithdrawal (Str ''w1'')
         (MarkCompleted (Str ''txlocal'') ''2024-01-01T00:00:00.000Z''),
       DbUpdateTransaction ''u1'' (Str ''txlocal'')])
   \<and> db_completed ex_env = DbOk \<and> db_fetch ex_env = DbOk
   \<and> status_of (Str ''w1'') ex_store = [''pending'']
   \<and> processWithdrawal ex_env (Str ''w1'')
        (apply_entry_update ''u1'' (Str ''txlocal'')
          (apply_update (Str ''w1'') (MarkCompleted (Str ''txlocal'') ''2024-01-01T00:00:00.000Z'')
             ex_store)) =
       (Response 400 (Error ''Withdrawal already completed''),
        apply_entry_update ''u1'' (Str ''txlocal'')
          (apply_update (Str ''w1'') (MarkCompleted (Str ''txlocal'') ''2024-01-01T00:00:00.000Z'')
             ex_store), [])"
proof -
  have ok: "db_completed ex_env = DbOk" "db_fetch ex_env = DbOk"
    by (simp_all add: ex_defs)
  from sequential_second_call_rejected [OF ex_run ok] ex_run ok
  show ?thesis by simp
qed

text \<open>
  Claim C3, as the spec states it, fails for two calls that overlap: in the schedule
  \<open>overlapped\<close> both calls load the record of \<open>ex_store\<close> as \<^verbatim>\<open>pending\<close>, both
  broadcast, and both answer with the success response.
\<close>

theorem overlapped_calls_both_submit_counterexample:
  "status_of (Str ''w1'') ex_store = [''pending'']
   \<and> fst (overlapped ex_env ex_env (Str ''w1'') ex_store) =
       Response 200 (Success (Str ''txlocal'') ''https://explorer.qubic.org/network/tx/txlocal'')
   \<and> fst (snd (overlapped ex_env ex_env (Str ''w1'') ex_store)) =
       Response 200 (Success (Str ''txlocal'') ''https://explorer.qubic.org/network/tx/txlocal'')
   \<and> filter is_submit (snd (snd (snd (overlapped ex_env ex_env (Str ''w1'') ex_store)))) =
       [Broadcast ''cGF5'', Broadcast ''cGF5'']"
  by (simp add: ex_overlapped_run) (simp add: status_of_def ex_defs)

section \<open>A completed record has a transaction identifier\<close>

text \<open>
  In \<^verbatim>\<open>src/withdrawal-service.js\<close> the record is marked \<^verbatim>\<open>completed\<close> only behind the
  check \<^verbatim>\<open>if (!txHash) throw\<close>: a call never adds a row that is completed and has no
  transaction identifier.
\<close>

lemma completed_without_tx_failed:
  "completed_without_tx s = [] \<Longrightarrow> completed_without_tx (apply_update i MarkFailed s) = []"
  by (auto simp: completed_without_tx_def apply_update_def filter_empty_conv)

lemma completed_without_tx_completed:
  "truthy h \<Longrightarrow> completed_without_tx s = [] \<Longrightarrow>
   completed_without_tx (apply_update i (MarkCompleted h t) s) = []"
  by (cases h) (auto simp: completed_without_tx_def apply_update_def filter_empty_conv)

lemma completed_without_tx_entry:
  "completed_without_tx (apply_entry_update u h s) = completed_without_tx s"
  by (simp add: completed_without_tx_def apply_entry_update_def)

lemma transfer_phase_keeps_tx_hash:
  assumes "completed_without_tx s = []"
    and "transfer_phase e i w (s, tr) = (r, s', tr')"
  shows "completed_without_tx s' = []"
  using assms
  by (auto simp: transfer_phase_def proc_defs update_withdrawals_def update_transactions_def
      Let_def completed_without_tx_completed completed_without_tx_entry
      split: if_splits db_outcome.splits sum.splits)

lemma after_guard_keeps_tx_hash:
  assumes "completed_without_tx s = []"
    and "after_guard e i w (s, tr) = (r, s', tr')"
  shows "completed_without_tx s' = []"
proof -
  obtain r0 s0 tr0 where ca: "computeAvailable e (s, tr) = (r0, s0, tr0)"
    by (cases "computeAvailable e (s, tr)") auto
  from computeAvailable_frame [OF ca] have fr: "s0 = s" "tr0 = tr" "\<forall>resp. r0 \<noteq> Return resp"
    by auto
  show ?thesis
  proof (cases r0)
    case (Next a)
    show ?thesis
    proof (cases "a < js_Number (amount w)")
      case True
      with assms ca fr Next show ?thesis
        by (auto simp: after_guard_def andThen_def respond_def update_withdrawals_def emit_def
            completed_without_tx_failed split: db_outcome.splits)
    next
      case False
      with assms(2) ca fr Next have "transfer_phase e i w (s, tr) = (r, s', tr')"
        by (simp add: after_guard_def andThen_def)
      from transfer_phase_keeps_tx_hash [OF assms(1) this] show ?thesis .
    qed
  next
    case (Return x)
    with fr show ?thesis by simp
  next
    case (Throw m)
    with assms ca fr show ?thesis by (simp add: after_guard_def andThen_def)
  qed
qed

lemma guard_phase_frame: "guard_phase e i (s, tr) = (g, s', tr') \<Longrightarrow> s' = s"
  by (auto simp: guard_phase_def proc_defs select_single_def
      split: if_splits db_outcome.splits list.splits option.splits)

lemma catch_block_keeps_tx_hash:
  assumes "completed_without_tx s = []"
    and "catch_block e i err (s, tr) = (r, s', tr')"
  shows "completed_without_tx s' = []"
  using assms
  by (auto simp: catch_block_def proc_defs update_withdrawals_def completed_without_tx_failed
      split: if_splits db_outcome.splits)

lemma main_keeps_tx_hash:
  assumes "completed_without_tx s = []"
  shows "completed_without_tx (fst (snd (processWithdrawal e i s))) = []"
proof -
  obtain g sg trg where g: "guard_phase e i (s, []) = (g, sg, trg)"
    by (cases "guard_phase e i (s, [])") auto
  from guard_phase_frame [OF g] have sg: "sg = s" .
  obtain r s1 tr1 where t: "try_block e i (s, []) = (r, s1, tr1)"
    by (cases "try_block e i (s, [])") auto
  have inv1: "completed_without_tx s1 = []"
  proof (cases g)
    case (Next w)
    with t g sg have "after_guard e i w (s, trg) = (r, s1, tr1)"
      by (simp add: try_block_def andThen_def)
    from after_guard_keeps_tx_hash [OF assms this] show ?thesis .
  next
    case (Return x)
    with t g sg assms show ?thesis by (simp add: try_block_def andThen_def)
  next
    case (Throw m)
    with t g sg assms show ?thesis by (simp add: try_block_def andThen_def)
  qed
  show ?thesis
  proof (cases r)
    case (Next u)
    with t inv1 show ?thesis by (simp add: processWithdrawal_def finish_def)
  next
    case (Return x)
    with t inv1 show ?thesis by (simp add: processWithdrawal_def finish_def)
  next
    case (Throw err)
    obtain r' s' tr' where c: "catch_block e i err (s1, tr1) = (r', s', tr')"
      by (cases "catch_block e i err (s1, tr1)") auto
    from catch_block_keeps_tx_hash [OF inv1 c] Throw t c show ?thesis
      by (simp add: processWithdrawal_def finish_def)
  qed
qed

text \<open>
  Claim C6 fails in the copy, which has no such check. The broadcast of
  \<open>ex_env_no_txid\<close> is accepted, its body has no \<^verbatim>\<open>txId\<close> and \<^verbatim>\<open>getTxId()\<close> gives
  \<^verbatim>\<open>undefined\<close>: the copy answers with the success response and leaves the record
  \<^verbatim>\<open>completed\<close> with \<^verbatim>\<open>tx_hash\<close> still \<^verbatim>\<open>null\<close>, where the handler of
  \<^verbatim>\<open>src/withdrawal-service.js\<close> throws and answers 500.
\<close>

theorem copy_completes_without_tx_hash:
  "completed_without_tx ex_store = []
   \<and> fst (processWithdrawal_copy ex_env_no_txid (Str ''w1'') ex_store) =
       Response 200 (Success Undefined ''https://explorer.qubic.org/network/tx/undefined'')
   \<and> status_of (Str ''w1'')
        (fst (snd (processWithdrawal_copy ex_env_no_txid (Str ''w1'') ex_store))) = [''completed'']
   \<and> tx_hash_of (Str ''w1'')
        (fst (snd (processWithdrawal_copy ex_env_no_txid (Str ''w1'') ex_store))) = [None]
   \<and> completed_without_tx (fst (snd (processWithdrawal_copy ex_env_no_txid (Str ''w1'') ex_store))) =
       [ex_withdrawal\<lparr>status := ''completed'', completed_at := Some ''2024-01-01T00:00:00.000Z''\<rparr>]
   \<and> fst (processWithdrawal ex_env_no_txid (Str ''w1'') ex_store) =
       Response 500 (Error ''No transaction ID returned from broadcast'')
   \<and> completed_without_tx (fst (snd (processWithdrawal ex_env_no_txid (Str ''w1'') ex_store))) = []"
  by (simp add: ex_no_txid_copy_run ex_no_txid_run)
     (simp add: completed_without_tx_def status_of_def tx_hash_of_def apply_update_def
        apply_entry_update_def ex_defs ex_env_no_txid_def)

section \<open>The update in the catch block fails\<close>

text \<open>
  In \<^verbatim>\<open>src/withdrawal-service.js\<close> every error thrown in the \<^verbatim>\<open>try\<close> block is
  answered with 500 and that error's message, after an attempt to mark the withdrawal
  \<^verbatim>\<open>failed\<close>; when the attempt itself rejects, that is logged and the answer is the
  same.
\<close>

lemma try_block_Throw_truthy:
  "try_block e i st = (Throw err, st') \<Longrightarrow> truthy i"
  by (cases "truthy i") (simp_all add: try_block_def guard_phase_def andThen_def respond_def)

lemma main_reports_original_error:
  assumes "try_block e i (s, []) = (Throw err, s1, tr1)"
  shows "fst (processWithdrawal e i s) =
           Response 500 (Error (if err = [] then ''Unknown error occurred'' else err))
       \<and> (\<exists>rest. snd (snd (processWithdrawal e i s)) =
             tr1 @ [ConsoleError ''Withdrawal processing error:'' err,
                    DbUpdateWithdrawal i MarkFailed] @ rest)
       \<and> (\<forall>m. db_compensate e = DbThrow m \<longrightarrow>
            processWithdrawal e i s =
              (Response 500 (Error (if err = [] then ''Unknown error occurred'' else err)), s1,
               tr1 @ [ConsoleError ''Withdrawal processing error:'' err,
                      DbUpdateWithdrawal i MarkFailed,
                      ConsoleError ''Failed to update withdrawal status:'' m]))"
  using assms try_block_Throw_truthy [OF assms]
  by (cases "db_compensate e")
     (simp_all add: processWithdrawal_def finish_def catch_block_def proc_defs
      update_withdrawals_def)

text \<open>
  An update that fails by resolving with an \<^verbatim>\<open>error\<close> is not looked at: the answer is
  still the original error, and nothing is logged about the update.
\<close>

lemma main_ignores_resolved_error:
  assumes "try_block e i (s, []) = (Throw err, s1, tr1)"
    and "db_compensate e = DbError"
  shows "processWithdrawal e i s =
           (Response 500 (Error (if err = [] then ''Unknown error occurred'' else err)), s1,
            tr1 @ [ConsoleError ''Withdrawal processing error:'' err,
                   DbUpdateWithdrawal i MarkFailed])"
  using assms try_block_Throw_truthy [OF assms(1)]
  by (simp add: processWithdrawal_def finish_def catch_block_def proc_defs
      update_withdrawals_def)

text \<open>The copy, when the update rejects: no response, and the rejection is the update's.\<close>

lemma copy_drops_original_error:
  assumes "try_block_copy e i (s, []) = (Throw err, s1, tr1)"
    and "db_compensate e = DbThrow m"
    and "truthy i"
  shows "processWithdrawal_copy e i s =
           (Unanswered m, s1, tr1 @ [ConsoleError ''Error:'' err, DbUpdateWithdrawal i MarkFailed])"
  using assms
  by (simp add: processWithdrawal_copy_def finish_copy_def catch_block_copy_def proc_defs
      update_withdrawals_def)

text \<open>
  Claim C7 fails in the copy, whose \<^verbatim>\<open>catch\<close> awaits the update with no \<^verbatim>\<open>try\<close>
  around it. The builder of \<open>ex_env_store_down\<close> raises \<^verbatim>\<open>boom\<close> and the update in the
  \<^verbatim>\<open>catch\<close> rejects with \<^verbatim>\<open>db down\<close>: the copy sends no response and its promise
  rejects with \<^verbatim>\<open>db down\<close>, nothing logs the failed update, and the caller never
  sees \<^verbatim>\<open>boom\<close>; the handler of \<^verbatim>\<open>src/withdrawal-service.js\<close> logs the failed update
  and answers 500 \<^verbatim>\<open>boom\<close>.
\<close>

theorem copy_loses_original_error:
  "builder ex_env_store_down 500000 ''DEST'' 1020 = Inl ''boom''
   \<and> db_compensate ex_env_store_down = DbThrow ''db down''
   \<and> processWithdrawal_copy ex_env_store_down (Str ''w1'') ex_store =
       (Unanswered ''db down'', ex_store,
        [RpcStatus, Build 500000 ''DEST'' 1020, ConsoleError ''Error:'' ''boom'',
         DbUpdateWithdrawal (Str ''w1'') MarkFailed])
   \<and> processWithdrawal ex_env_store_down (Str ''w1'') ex_store =
       (Response 500 (Error ''boom''), ex_store,
        [RpcStatus, Build 500000 ''DEST'' 1020,
         ConsoleError ''Withdrawal processing error:'' ''boom'',
         DbUpdateWithdrawal (Str ''w1'') MarkFailed,
         ConsoleError ''Failed to update withdrawal status:'' ''db down''])"
  by (simp add: ex_store_down_copy_run ex_store_down_run) (simp add: ex_defs ex_env_store_down_def)

end
